theory Spec2Isabelle
  imports Main "HOL-Library.Word"
begin

unbundle bit_operations_syntax

section \<open>The SLAC session of \<^verbatim>\<open>slac/session.py\<close>\<close>

text \<open>
  The module \<^verbatim>\<open>slac/session.py\<close> holds the session record \<^verbatim>\<open>SlacSession\<close> with its
  \<^verbatim>\<open>reset\<close>, and the EVSE side of the matching routine (\<^verbatim>\<open>SlacEvseSession\<close>). The
  methods mutate \<^verbatim>\<open>self\<close>, await frames from a raw socket, read a clock and may raise.
  Here every method is a function from the session (and the log of the input and output
  done so far) to the updated session, the updated log and the way the call ended; the
  socket and the clock are oracles, a raise is a value.
\<close>

subsection \<open>Values\<close>

type_synonym byte = "8 word"
type_synonym bytes = "byte list"

text \<open>The Python exceptions that the module raises, catches or lets through. All of them
  are subclasses of \<^verbatim>\<open>Exception\<close>; only \<open>ValueError\<close> is caught by \<^verbatim>\<open>except ValueError\<close>.\<close>

datatype exn = ValueError | TypeError | IndexError | TimeoutError | OSError

text \<open>Modelled from the spec: the three state constants of \<^verbatim>\<open>slac.enums\<close> (not part of
  the sources at hand), which the spec names Unmatched, Matching and Matched and which
  are three different values.\<close>

datatype state = STATE_UNMATCHED | STATE_MATCHING | STATE_MATCHED

text \<open>Modelled from the spec: the protocol constants of \<^verbatim>\<open>slac.enums\<close> whose values the
  spec fixes (section 4.1 and the table of timers in 4.3).\<close>

definition ETH_TYPE_HPAV :: int where "ETH_TYPE_HPAV = 0x88E1"
definition HOMEPLUG_MMV :: int where "HOMEPLUG_MMV = 0x01"
definition MMTYPE_REQ :: int where "MMTYPE_REQ = 0"
definition MMTYPE_CNF :: int where "MMTYPE_CNF = 1"
definition MMTYPE_IND :: int where "MMTYPE_IND = 2"
definition CM_SET_KEY :: int where "CM_SET_KEY = 0x6008"
definition CM_START_ATTEN_CHAR :: int where "CM_START_ATTEN_CHAR = 0x6068"
definition CM_ATTEN_CHAR :: int where "CM_ATTEN_CHAR = 0x606C"
definition CM_MNBC_SOUND :: int where "CM_MNBC_SOUND = 0x6074"
definition CM_SLAC_MATCH :: int where "CM_SLAC_MATCH = 0x607C"
definition CM_ATTEN_PROFILE :: int where "CM_ATTEN_PROFILE = 0x6084"
definition SLAC_GROUPS :: nat where "SLAC_GROUPS = 58"
definition SLAC_RESP_TYPE :: int where "SLAC_RESP_TYPE = 1"
definition ATTEN_RESULTS_TIMEOUT :: int where "ATTEN_RESULTS_TIMEOUT = 9"

text \<open>The remaining constants of \<^verbatim>\<open>slac.enums\<close> (defaults of the session fields, frame
  sizes of \<^verbatim>\<open>FramesSizes\<close>) and the two pure helpers of \<^verbatim>\<open>slac.utils\<close> are parameters.
  \<open>EVSE_ID\<close> stands for the bytes \<^verbatim>\<open>bytes.fromhex(EVSE_ID)\<close>. \<open>hw_quot a n\<close> stands for
  the Python expression \<^verbatim>\<open>hw(a / n)\<close>: the float quotient of two integers handed to
  \<^verbatim>\<open>half_round\<close>, a function of \<open>a\<close> and \<open>n\<close>.\<close>

record deps =
  EVSE_ID :: bytes
  EVSE_PLC_MAC :: bytes
  SLAC_MSOUNDS :: int
  SLAC_ATTEN_TIMEOUT :: int
  SLAC_LIMIT :: int
  SLAC_PAUSE :: int
  SLAC_SETTLE_TIME :: int
  CM_SET_KEY_CNF :: int
  CM_START_ATTEN_CHAR_IND :: int
  CM_MNBC_SOUND_IND :: int
  CM_ATTEN_PROFILE_IND :: int
  CM_ATTEN_CHAR_RSP :: int
  CM_SLAC_MATCH_REQ :: int
  hw_quot :: "int \<Rightarrow> int \<Rightarrow> int"
  generate_nid :: "bytes \<Rightarrow> bytes"

subsection \<open>The session record\<close>

text \<open>The field \<^verbatim>\<open>aag\<close> is declared a list of integers, but \<^verbatim>\<open>reset\<close> stores the
  object that \<^verbatim>\<open>dataclasses.field(...)\<close> returns, which is not a list.\<close>

datatype aag_value = Aag "int list" | DataclassField

record SlacSession =
  state :: state
  nmk :: bytes
  nid :: bytes
  forwarding_sta :: bytes
  pev_id :: "int option"
  pev_mac :: bytes
  evse_id :: bytes
  evse_mac :: bytes
  run_id :: bytes
  application_type :: int
  security_type :: int
  num_start_attn_rcvd :: int
  num_expected_sounds :: "int option"
  num_total_sounds :: int
  sounds :: int
  time_out_ms :: int
  aag :: aag_value
  num_groups :: "int option"
  rnd :: bytes
  slac_threshold :: int
  pause :: int
  settle_time :: int
  matching_process_task :: "nat option"
  mqtt_msg_counter :: int

text \<open>\<^verbatim>\<open>SlacEvseSession\<close> extends the record; its socket is the oracle \<open>world\<close> below.\<close>

record SlacEvseSession = SlacSession +
  iface :: string
  evse_plc_mac :: bytes

text \<open>\<^verbatim>\<open>SlacSession.reset\<close>: one assignment per line of the source, in its order.\<close>

definition reset :: "deps \<Rightarrow> 'a SlacSession_scheme \<Rightarrow> 'a SlacSession_scheme" where
  "reset D self = self
     \<lparr> state := STATE_UNMATCHED,
       forwarding_sta := [],
       pev_id := None,
       pev_mac := [],
       evse_id := EVSE_ID D,
       evse_mac := [],
       run_id := [],
       application_type := 0x00,
       security_type := 0x00,
       num_start_attn_rcvd := 0,
       num_expected_sounds := None,
       num_total_sounds := 0,
       sounds := SLAC_MSOUNDS D,
       time_out_ms := SLAC_ATTEN_TIMEOUT D,
       aag := DataclassField,
       num_groups := None,
       rnd := replicate 17 0,
       slac_threshold := SLAC_LIMIT D,
       pause := SLAC_PAUSE D,
       settle_time := SLAC_SETTLE_TIME D,
       matching_process_task := None \<rparr>"

subsection \<open>Frames\<close>

text \<open>The headers and payloads of \<^verbatim>\<open>slac.layer_2_headers\<close> and \<^verbatim>\<open>slac.messages\<close>, with
  the fields that the session reads.\<close>

record EthernetHeader =
  dst_mac :: bytes
  src_mac :: bytes
  ether_type :: int

record HomePlugHeader =
  mmv :: int
  mm_type :: int

record StartAtennChar =
  sa_application_type :: int
  sa_security_type :: int
  sa_num_sounds :: int
  sa_time_out :: int
  sa_resp_type :: int
  sa_forwarding_sta :: bytes
  sa_run_id :: bytes

record MnbcSound =
  ms_cnt :: int
  ms_run_id :: bytes

record AttenProfile =
  ap_pev_mac :: bytes
  ap_num_groups :: int
  ap_aag :: "int list"

record AtennCharRsp =
  acr_run_id :: bytes
  acr_result :: int

record MatchReq =
  mr_pev_id :: int
  mr_pev_mac :: bytes
  mr_run_id :: bytes

text \<open>The decoders (\<^verbatim>\<open>from_bytes\<close>) are not part of the sources at hand. Received data
  is therefore kept as what each decoder makes of it: the decoded value, or the exception
  that the decoder raises on these bytes.\<close>

record data_rcvd =
  EthernetHeader_from_bytes :: "exn + EthernetHeader"
  HomePlugHeader_from_bytes :: "exn + HomePlugHeader"
  StartAtennChar_from_bytes :: "exn + StartAtennChar"
  MnbcSound_from_bytes :: "exn + MnbcSound"
  AttenProfile_from_bytes :: "exn + AttenProfile"
  AtennCharRsp_from_bytes :: "exn + AtennCharRsp"
  MatchReq_from_bytes :: "exn + MatchReq"

text \<open>A frame handed to \<^verbatim>\<open>send_frame\<close>: the arguments of the three constructors whose
  \<^verbatim>\<open>pack_big()\<close> results are concatenated.\<close>

datatype payload =
    AtennChar bytes bytes int "int option" aag_value
  | MatchCnf bytes bytes bytes bytes bytes
  | SetKeyReq bytes bytes

record frame_to_send =
  ethernet_header :: "bytes \<times> bytes"
  homeplug_header :: int
  message :: payload

subsection \<open>Socket and clock\<close>

text \<open>The socket and the clock are oracles. \<open>readeth w k size\<close> is how the \<open>k\<close>-th
  awaited read of the run ends when it asks for \<open>size\<close> bytes (the data, or the exception
  of \<^verbatim>\<open>asyncio.wait_for\<close>, such as the timeout); \<open>sendeth w k\<close> is the exception of
  the \<open>k\<close>-th send, if it raises; \<open>time_now_ms w k\<close> is the clock reading taken once
  \<open>k\<close> reads have ended. The time-out that \<^verbatim>\<open>rcv_frame\<close> passes on is part of the call
  that the oracle answers; nothing ties the clock to it. The log \<open>io\<close> records every
  read (requested size and outcome) and every frame sent.\<close>

record world =
  readeth :: "nat \<Rightarrow> int option \<Rightarrow> exn + data_rcvd"
  sendeth :: "nat \<Rightarrow> exn option"
  time_now_ms :: "nat \<Rightarrow> int"

record io =
  reads :: "(int option \<times> (exn + data_rcvd)) list"
  sent :: "frame_to_send list"

definition rcv_frame :: "world \<Rightarrow> io \<Rightarrow> int option \<Rightarrow> (exn + data_rcvd) \<times> io" where
  "rcv_frame w i rcv_frame_size =
     (let r = readeth w (length (reads i)) rcv_frame_size
      in (r, i\<lparr>reads := reads i @ [(rcv_frame_size, r)]\<rparr>))"

definition send_frame :: "world \<Rightarrow> io \<Rightarrow> frame_to_send \<Rightarrow> exn option \<times> io" where
  "send_frame w i f =
     (case sendeth w (length (sent i)) of
        Some e \<Rightarrow> (Some e, i)
      | None \<Rightarrow> (None, i\<lparr>sent := sent i @ [f]\<rparr>))"

subsection \<open>The sounding loop\<close>

text \<open>\<^verbatim>\<open>for group in range(n): aag[group] += profile[group]\<close>, over the list of the indices.
  An index outside either list raises \<open>IndexError\<close> and leaves the additions done so far
  in the list.\<close>

fun add_groups :: "nat list \<Rightarrow> int list \<Rightarrow> int list \<Rightarrow> exn option \<times> int list" where
  "add_groups [] sums profile = (None, sums)"
| "add_groups (g # gs) sums profile =
     (if g < length sums \<and> g < length profile
      then add_groups gs (sums[g := sums ! g + profile ! g]) profile
      else (Some IndexError, sums))"

text \<open>\<^verbatim>\<open>for group in range(SLAC_GROUPS): self.aag[group] = hw(aag[group] / n)\<close>.\<close>

fun store_averages ::
  "deps \<Rightarrow> nat list \<Rightarrow> int list \<Rightarrow> int \<Rightarrow> int list \<Rightarrow> exn option \<times> int list" where
  "store_averages D [] sums n self_aag = (None, self_aag)"
| "store_averages D (g # gs) sums n self_aag =
     (if g < length sums \<and> g < length self_aag
      then store_averages D gs sums n (self_aag[g := hw_quot D (sums ! g) n])
      else (Some IndexError, self_aag))"

text \<open>\<^verbatim>\<open>process_sound_frame\<close> returns the size of the frame expected next, or raises; the
  list \<^verbatim>\<open>aag\<close> of the caller and \<^verbatim>\<open>self\<close> are returned as the call leaves them. A frame
  of neither type falls off the end of the Python function, which then returns \<open>None\<close>.\<close>

definition process_sound_frame ::
  "deps \<Rightarrow> SlacEvseSession \<Rightarrow> HomePlugHeader \<Rightarrow> EthernetHeader \<Rightarrow> data_rcvd \<Rightarrow> int \<Rightarrow> int list
     \<Rightarrow> (exn + int option) \<times> int list \<times> SlacEvseSession" where
  "process_sound_frame D self homeplug_frame ether_frame data sounds_rcvd sums =
     (if mm_type homeplug_frame = CM_MNBC_SOUND OR MMTYPE_IND then
        (case MnbcSound_from_bytes data of
           Inl e \<Rightarrow> (Inl e, sums, self)
         | Inr mnbc_sound_ind \<Rightarrow>
             if run_id self = ms_run_id mnbc_sound_ind then
               if pev_mac self \<noteq> src_mac ether_frame
               then (Inl ValueError, sums, self)
               else (Inr (Some (CM_ATTEN_PROFILE_IND D)), sums, self)
             else (Inr (Some (CM_ATTEN_PROFILE_IND D)), sums, self))
      else if mm_type homeplug_frame = CM_ATTEN_PROFILE OR MMTYPE_IND then
        (case AttenProfile_from_bytes data of
           Inl e \<Rightarrow> (Inl e, sums, self)
         | Inr atten_profile_ind \<Rightarrow>
             if pev_mac self = ap_pev_mac atten_profile_ind then
               (case add_groups [0..<nat (ap_num_groups atten_profile_ind)] sums
                       (ap_aag atten_profile_ind) of
                  (Some e, sums') \<Rightarrow> (Inl e, sums', self)
                | (None, sums') \<Rightarrow>
                    (Inr (Some (CM_MNBC_SOUND_IND D)), sums',
                     self\<lparr>num_groups := Some (ap_num_groups atten_profile_ind),
                          num_total_sounds := num_total_sounds self + 1\<rparr>))
             else (Inr (Some (CM_MNBC_SOUND_IND D)), sums, self))
      else (Inr None, sums, self))"

text \<open>The ways out of \<^verbatim>\<open>cm_sounds_loop\<close>: the \<^verbatim>\<open>return\<close> of the \<^verbatim>\<open>except\<close> branch after a
  failed read, the \<^verbatim>\<open>return\<close> at the end of the loop body (with the \<^verbatim>\<open>time_elapsed\<close>
  that the last check used), and an exception that leaves the function.\<close>

datatype loop_exit = ReadFailed | Finished int | Raised exn

text \<open>The end of the loop body, reached when the continuation check fails.\<close>

definition finish_sounds ::
  "deps \<Rightarrow> int \<Rightarrow> int list \<Rightarrow> SlacEvseSession \<Rightarrow> loop_exit \<times> SlacEvseSession" where
  "finish_sounds D time_elapsed sums self =
     (if num_total_sounds self > 0 then
        (case aag self of
           DataclassField \<Rightarrow> (Raised TypeError, self)
         | Aag self_aag \<Rightarrow>
             (case store_averages D [0..<SLAC_GROUPS] sums (num_total_sounds self) self_aag of
                (Some e, self_aag') \<Rightarrow> (Raised e, self\<lparr>aag := Aag self_aag'\<rparr>)
              | (None, self_aag') \<Rightarrow> (Finished time_elapsed, self\<lparr>aag := Aag self_aag'\<rparr>)))
      else (Finished time_elapsed, self))"

text \<open>One pass through the body of \<^verbatim>\<open>while True\<close>: either the loop goes round again with
  the new \<^verbatim>\<open>next_frame_expected\<close>, \<^verbatim>\<open>aag\<close> and session, or the function is left. With
  \<^verbatim>\<open>num_expected_sounds\<close> unset, the comparison of the check raises \<open>TypeError\<close> (it is
  only evaluated when time remains: \<^verbatim>\<open>and\<close> is short-circuit).\<close>

datatype iteration =
    Continue "int option" "int list" io SlacEvseSession
  | Exit loop_exit io SlacEvseSession

definition sounds_iteration ::
  "deps \<Rightarrow> world \<Rightarrow> int \<Rightarrow> int option \<Rightarrow> int list \<Rightarrow> io \<Rightarrow> SlacEvseSession \<Rightarrow> iteration" where
  "sounds_iteration D w time_start next_frame_expected sums i self =
     (case rcv_frame w i next_frame_expected of
        (Inl e, i') \<Rightarrow> Exit ReadFailed i' (self\<lparr>state := STATE_UNMATCHED\<rparr>)
      | (Inr data, i') \<Rightarrow>
     (case EthernetHeader_from_bytes data of
        Inl e \<Rightarrow> Exit ReadFailed i' (self\<lparr>state := STATE_UNMATCHED\<rparr>)
      | Inr ether_frame \<Rightarrow>
     (case HomePlugHeader_from_bytes data of
        Inl e \<Rightarrow> Exit ReadFailed i' (self\<lparr>state := STATE_UNMATCHED\<rparr>)
      | Inr homeplug_frame \<Rightarrow>
          if ether_type ether_frame = ETH_TYPE_HPAV \<and> mmv homeplug_frame = HOMEPLUG_MMV then
            (case process_sound_frame D self homeplug_frame ether_frame data 0 sums of
               (Inl e, sums', self') \<Rightarrow> Exit (Raised e) i' self'
             | (Inr next_frame_expected', sums', self') \<Rightarrow>
                 (let time_elapsed = time_now_ms w (length (reads i')) - time_start in
                  if time_elapsed < time_out_ms self' then
                    (case num_expected_sounds self' of
                       None \<Rightarrow> Exit (Raised TypeError) i' self'
                     | Some expected \<Rightarrow>
                         if num_total_sounds self' < expected
                         then Continue next_frame_expected' sums' i' self'
                         else (case finish_sounds D time_elapsed sums' self' of
                                 (x, self'') \<Rightarrow> Exit x i' self''))
                  else (case finish_sounds D time_elapsed sums' self' of
                          (x, self'') \<Rightarrow> Exit x i' self'')))
          else Continue next_frame_expected sums i' self)))"

text \<open>The loop itself. It need not end, so its result is optional: \<open>None\<close> is the run
  that never leaves the loop.\<close>

partial_function (option) sounds_while ::
  "deps \<Rightarrow> world \<Rightarrow> int \<Rightarrow> int option \<Rightarrow> int list \<Rightarrow> io \<Rightarrow> SlacEvseSession
     \<Rightarrow> (loop_exit \<times> io \<times> SlacEvseSession) option" where
  "sounds_while D w time_start next_frame_expected sums i self =
     (case sounds_iteration D w time_start next_frame_expected sums i self of
        Continue next_frame_expected' sums' i' self' \<Rightarrow>
          sounds_while D w time_start next_frame_expected' sums' i' self'
      | Exit x i' self' \<Rightarrow> Some (x, i', self'))"

declare sounds_while.simps [code]

text \<open>\<^verbatim>\<open>cm_sounds_loop\<close>: the initialisation, then the loop.\<close>

definition cm_sounds_loop ::
  "deps \<Rightarrow> world \<Rightarrow> io \<Rightarrow> SlacEvseSession \<Rightarrow> (loop_exit \<times> io \<times> SlacEvseSession) option" where
  "cm_sounds_loop D w i self =
     sounds_while D w (time_now_ms w (length (reads i))) (Some (CM_MNBC_SOUND_IND D))
       (replicate SLAC_GROUPS 0) i
       (self\<lparr>aag := Aag (replicate SLAC_GROUPS 0), num_total_sounds := 0\<rparr>)"

subsection \<open>The other steps of the matching routine\<close>

text \<open>A method that may raise ends with \<open>Some e\<close> (the exception that leaves it) or with
  \<open>None\<close> (it returned). \<^verbatim>\<open>cm_start_atten_charac\<close> catches every exception, so it always
  returns.\<close>

definition cm_start_atten_charac ::
  "deps \<Rightarrow> world \<Rightarrow> io \<Rightarrow> SlacEvseSession \<Rightarrow> io \<times> SlacEvseSession" where
  "cm_start_atten_charac D w i self =
     (case rcv_frame w i (Some (CM_START_ATTEN_CHAR_IND D)) of
        (Inl e, i') \<Rightarrow> (i', self\<lparr>state := STATE_UNMATCHED\<rparr>)
      | (Inr data, i') \<Rightarrow>
     (case EthernetHeader_from_bytes data of
        Inl e \<Rightarrow> (i', self\<lparr>state := STATE_UNMATCHED\<rparr>)
      | Inr ether_frame \<Rightarrow>
     (case HomePlugHeader_from_bytes data of
        Inl e \<Rightarrow> (i', self\<lparr>state := STATE_UNMATCHED\<rparr>)
      | Inr homeplug_frame \<Rightarrow>
     (case StartAtennChar_from_bytes data of
        Inl e \<Rightarrow> (i', self\<lparr>state := STATE_UNMATCHED\<rparr>)
      | Inr start_atten_char \<Rightarrow>
          if application_type self \<noteq> sa_application_type start_atten_char
             \<or> security_type self \<noteq> sa_security_type start_atten_char
             \<or> run_id self \<noteq> sa_run_id start_atten_char
             \<or> sa_resp_type start_atten_char \<noteq> SLAC_RESP_TYPE
             \<or> mm_type homeplug_frame \<noteq> CM_START_ATTEN_CHAR OR MMTYPE_IND
          then (i', self\<lparr>state := STATE_UNMATCHED\<rparr>)
          else (i', self\<lparr>num_expected_sounds := Some (sa_num_sounds start_atten_char),
                         time_out_ms := ATTEN_RESULTS_TIMEOUT * 100,
                         forwarding_sta := sa_forwarding_sta start_atten_char\<rparr>)))))"

text \<open>\<^verbatim>\<open>cm_atten_char\<close>: the branch for a wrong EtherType, version or run id sets the state
  and has no \<^verbatim>\<open>return\<close>; the branch for a result other than 0 has one.\<close>

definition cm_atten_char ::
  "deps \<Rightarrow> world \<Rightarrow> io \<Rightarrow> SlacEvseSession \<Rightarrow> exn option \<times> io \<times> SlacEvseSession" where
  "cm_atten_char D w i self =
     (case send_frame w i
             \<lparr>ethernet_header = (pev_mac self, evse_mac self),
              homeplug_header = CM_ATTEN_CHAR OR MMTYPE_IND,
              message = AtennChar (pev_mac self) (run_id self) (num_total_sounds self)
                          (num_groups self) (aag self)\<rparr> of
        (Some e, i1) \<Rightarrow> (Some e, i1, self)
      | (None, i1) \<Rightarrow>
     (case rcv_frame w i1 (Some (CM_ATTEN_CHAR_RSP D)) of
        (Inl e, i2) \<Rightarrow> (None, i2, self\<lparr>state := STATE_UNMATCHED\<rparr>)
      | (Inr data, i2) \<Rightarrow>
     (case EthernetHeader_from_bytes data of
        Inl e \<Rightarrow> (None, i2, self\<lparr>state := STATE_UNMATCHED\<rparr>)
      | Inr ether_frame \<Rightarrow>
     (case HomePlugHeader_from_bytes data of
        Inl e \<Rightarrow> (None, i2, self\<lparr>state := STATE_UNMATCHED\<rparr>)
      | Inr homeplug_frame \<Rightarrow>
     (case AtennCharRsp_from_bytes data of
        Inl e \<Rightarrow> (None, i2, self\<lparr>state := STATE_UNMATCHED\<rparr>)
      | Inr atten_charac_response \<Rightarrow>
          (let self1 =
                 (if ether_type ether_frame \<noteq> ETH_TYPE_HPAV
                     \<or> mmv homeplug_frame \<noteq> HOMEPLUG_MMV
                     \<or> run_id self \<noteq> acr_run_id atten_charac_response
                  then self\<lparr>state := STATE_UNMATCHED\<rparr> else self)
           in if acr_result atten_charac_response \<noteq> 0
              then (None, i2, self1\<lparr>state := STATE_UNMATCHED\<rparr>)
              else (None, i2, self1)))))))"

text \<open>\<^verbatim>\<open>cm_slac_match\<close>: a failed read or decoding sets the state and returns; a request
  that fails the validation raises \<open>ValueError\<close>.\<close>

definition cm_slac_match ::
  "deps \<Rightarrow> world \<Rightarrow> io \<Rightarrow> SlacEvseSession \<Rightarrow> exn option \<times> io \<times> SlacEvseSession" where
  "cm_slac_match D w i self =
     (case rcv_frame w i (Some (CM_SLAC_MATCH_REQ D)) of
        (Inl e, i1) \<Rightarrow> (None, i1, self\<lparr>state := STATE_UNMATCHED\<rparr>)
      | (Inr data, i1) \<Rightarrow>
     (case EthernetHeader_from_bytes data of
        Inl e \<Rightarrow> (None, i1, self\<lparr>state := STATE_UNMATCHED\<rparr>)
      | Inr ether_frame \<Rightarrow>
     (case HomePlugHeader_from_bytes data of
        Inl e \<Rightarrow> (None, i1, self\<lparr>state := STATE_UNMATCHED\<rparr>)
      | Inr homeplug_frame \<Rightarrow>
     (case MatchReq_from_bytes data of
        Inl e \<Rightarrow> (None, i1, self\<lparr>state := STATE_UNMATCHED\<rparr>)
      | Inr slac_match_req \<Rightarrow>
          if ether_type ether_frame \<noteq> ETH_TYPE_HPAV
             \<or> mmv homeplug_frame \<noteq> HOMEPLUG_MMV
             \<or> mm_type homeplug_frame \<noteq> CM_SLAC_MATCH OR MMTYPE_REQ
             \<or> mr_run_id slac_match_req \<noteq> run_id self
          then (Some ValueError, i1, self)
          else
            (let self1 = self\<lparr>pev_id := Some (mr_pev_id slac_match_req),
                              pev_mac := mr_pev_mac slac_match_req\<rparr>
             in case send_frame w i1
                       \<lparr>ethernet_header = (pev_mac self1, evse_mac self1),
                        homeplug_header = CM_SLAC_MATCH OR MMTYPE_CNF,
                        message = MatchCnf (pev_mac self1) (evse_mac self1) (run_id self1)
                                    (nid self1) (nmk self1)\<rparr> of
                  (Some e, i2) \<Rightarrow> (Some e, i2, self1)
                | (None, i2) \<Rightarrow> (None, i2, self1\<lparr>state := STATE_MATCHED\<rparr>))))))"

text \<open>\<^verbatim>\<open>atten_charac_routine\<close> awaits the four steps one after the other and looks at
  no state in between; only an exception (or a sounding loop that never ends) keeps a
  later step from running.\<close>

definition atten_charac_routine ::
  "deps \<Rightarrow> world \<Rightarrow> io \<Rightarrow> SlacEvseSession \<Rightarrow> (exn option \<times> io \<times> SlacEvseSession) option" where
  "atten_charac_routine D w i self =
     (case cm_start_atten_charac D w i self of (i1, self1) \<Rightarrow>
     (case cm_sounds_loop D w i1 self1 of
        None \<Rightarrow> None
      | Some (Raised e, i2, self2) \<Rightarrow> Some (Some e, i2, self2)
      | Some (_, i2, self2) \<Rightarrow>
     (case cm_atten_char D w i2 self2 of
        (Some e, i3, self3) \<Rightarrow> Some (Some e, i3, self3)
      | (None, i3, self3) \<Rightarrow> Some (cm_slac_match D w i3 self3))))"

subsection \<open>Key provisioning\<close>

record SetKeyCnf =
  skc_result :: byte
  skc_my_nonce :: bytes
  skc_your_nonce :: bytes
  skc_pid :: byte
  skc_prn :: bytes
  skc_pmn :: byte
  skc_cco_cap :: byte

text \<open>Modelled from the spec: the decoder \<^verbatim>\<open>SetKeyCnf.from_bytes\<close> of \<^verbatim>\<open>slac.messages\<close>
  (not part of the sources at hand). The layout is the one of section 4.1, after the
  14 bytes of the Ethernet header and the 5 bytes of the HomePlug header:
  result(1), my_nonce(4), your_nonce(4), pid(1), prn(2), pmn(1), cco_cap(1); trailing
  bytes are ignored. The decoder fails on a frame shorter than the layout and, by
  section 4.2, on the result 0xFF; its failure is the \<open>ValueError\<close> that
  \<^verbatim>\<open>evse_set_key\<close> catches.\<close>

definition SetKeyCnf_unpack :: "bytes \<Rightarrow> SetKeyCnf option" where
  "SetKeyCnf_unpack payload =
     (if length payload < 19 + 14 then None
      else (let body = drop 19 payload
            in Some \<lparr>skc_result = body ! 0,
                     skc_my_nonce = take 4 (drop 1 body),
                     skc_your_nonce = take 4 (drop 5 body),
                     skc_pid = body ! 9,
                     skc_prn = take 2 (drop 10 body),
                     skc_pmn = body ! 12,
                     skc_cco_cap = body ! 13\<rparr>))"

definition SetKeyCnf_from_bytes :: "bytes \<Rightarrow> exn + SetKeyCnf" where
  "SetKeyCnf_from_bytes payload =
     (case SetKeyCnf_unpack payload of
        None \<Rightarrow> Inl ValueError
      | Some cnf \<Rightarrow> if skc_result cnf = 0xFF then Inl ValueError else Inr cnf)"

text \<open>\<^verbatim>\<open>evse_set_key\<close>. \<open>urandom16\<close> is what \<^verbatim>\<open>urandom(16)\<close> returns in this call and
  \<open>send_recv_eth\<close> is how the awaited exchange with the modem ends for the frame sent
  and the size asked for: with the bytes received, or with an exception. Only the
  decoding stands in a \<^verbatim>\<open>try\<close>, and only \<open>ValueError\<close> is caught there.\<close>

definition evse_set_key ::
  "deps \<Rightarrow> bytes \<Rightarrow> (frame_to_send \<Rightarrow> int \<Rightarrow> exn + bytes) \<Rightarrow> SlacEvseSession
     \<Rightarrow> (exn + bytes) \<times> SlacEvseSession" where
  "evse_set_key D urandom16 send_recv_eth self =
     (let nmk' = urandom16;
          nid' = generate_nid D nmk';
          frame = \<lparr>ethernet_header = (evse_plc_mac self, evse_mac self),
                   homeplug_header = CM_SET_KEY OR MMTYPE_REQ,
                   message = SetKeyReq nid' nmk'\<rparr>
      in case send_recv_eth frame (CM_SET_KEY_CNF D) of
           Inl e \<Rightarrow> (Inl e, self)
         | Inr payload_rcvd \<Rightarrow>
             (case SetKeyCnf_from_bytes payload_rcvd of
                Inr cnf \<Rightarrow> (Inr payload_rcvd, self\<lparr>nmk := nmk', nid := nid'\<rparr>)
              | Inl e \<Rightarrow>
                  if e = ValueError then (Inr payload_rcvd, self) else (Inl e, self)))"

subsection \<open>Observations on a run\<close>

text \<open>The frames that the sounding loop skips without a look at the clock: the read
  succeeds, both headers decode, and the EtherType is not 0x88E1 or the version is not
  0x01 (the \<^verbatim>\<open>if\<close> in the body of \<^verbatim>\<open>cm_sounds_loop\<close> has no \<^verbatim>\<open>else\<close>).\<close>

definition skipped :: "exn + data_rcvd \<Rightarrow> bool" where
  "skipped r =
     (case r of
        Inl e \<Rightarrow> False
      | Inr data \<Rightarrow>
          (case (EthernetHeader_from_bytes data, HomePlugHeader_from_bytes data) of
             (Inr ether_frame, Inr homeplug_frame) \<Rightarrow>
               \<not> (ether_type ether_frame = ETH_TYPE_HPAV \<and> mmv homeplug_frame = HOMEPLUG_MMV)
           | _ \<Rightarrow> False))"







subsection \<open>Example runs\<close>

text \<open>Concrete values on which the theorems below are exercised. The frame sizes and
  defaults are sample values; the sample \<open>hw_quot\<close> rounds the quotient half up; the
  sample \<open>generate_nid\<close> is a placeholder.\<close>

definition example_deps :: deps where
  "example_deps =
     \<lparr>EVSE_ID = replicate 17 0x30,
      EVSE_PLC_MAC = [0x00, 0xB0, 0x52, 0x00, 0x00, 0x01],
      SLAC_MSOUNDS = 10,
      SLAC_ATTEN_TIMEOUT = 6,
      SLAC_LIMIT = 40,
      SLAC_PAUSE = 20,
      SLAC_SETTLE_TIME = 10,
      CM_SET_KEY_CNF = 60,
      CM_START_ATTEN_CHAR_IND = 60,
      CM_MNBC_SOUND_IND = 71,
      CM_ATTEN_PROFILE_IND = 85,
      CM_ATTEN_CHAR_RSP = 70,
      CM_SLAC_MATCH_REQ = 85,
      hw_quot = (\<lambda>a n. (2 * a + n) div (2 * n)),
      generate_nid = take 7\<rparr>"

definition ev_mac :: bytes where "ev_mac = [0x02, 0x00, 0x00, 0x00, 0x00, 0x0A]"
definition other_mac :: bytes where "other_mac = [0x02, 0x00, 0x00, 0x00, 0x00, 0x0B]"
definition host_mac :: bytes where "host_mac = [0x02, 0x00, 0x00, 0x00, 0x00, 0x01]"
definition ev_run_id :: bytes where "ev_run_id = [1, 2, 3, 4, 5, 6, 7, 8]"
definition other_run_id :: bytes where "other_run_id = [8, 7, 6, 5, 4, 3, 2, 1]"

text \<open>A session in the state Matching, as \<^verbatim>\<open>evse_slac_parm\<close> and
  \<^verbatim>\<open>cm_start_atten_charac\<close> leave it: ten sounds expected within 900 ms.\<close>

definition matching_session :: SlacEvseSession where
  "matching_session =
     \<lparr>state = STATE_MATCHING,
      nmk = replicate 16 0x11,
      nid = replicate 7 0x22,
      forwarding_sta = ev_mac,
      pev_id = None,
      pev_mac = ev_mac,
      evse_id = replicate 17 0x30,
      evse_mac = host_mac,
      run_id = ev_run_id,
      application_type = 0,
      security_type = 0,
      num_start_attn_rcvd = 0,
      num_expected_sounds = Some 10,
      num_total_sounds = 0,
      sounds = 10,
      time_out_ms = 900,
      aag = Aag (replicate 58 0),
      num_groups = None,
      rnd = replicate 17 0,
      slac_threshold = 40,
      pause = 20,
      settle_time = 10,
      matching_process_task = None,
      mqtt_msg_counter = 0,
      iface = ''eth0'',
      evse_plc_mac = [0x00, 0xB0, 0x52, 0x00, 0x00, 0x01]\<rparr>"

definition no_io :: io where "no_io = \<lparr>reads = [], sent = []\<rparr>"

text \<open>Received data with HPAV headers from \<open>src\<close> and the message type \<open>mt\<close>, on which
  every payload decoder fails; the examples then set the one payload they carry.\<close>

definition hpav_frame :: "bytes \<Rightarrow> int \<Rightarrow> data_rcvd" where
  "hpav_frame src mt =
     \<lparr>EthernetHeader_from_bytes =
        Inr \<lparr>dst_mac = host_mac, src_mac = src, ether_type = ETH_TYPE_HPAV\<rparr>,
      HomePlugHeader_from_bytes = Inr \<lparr>mmv = HOMEPLUG_MMV, mm_type = mt\<rparr>,
      StartAtennChar_from_bytes = Inl ValueError,
      MnbcSound_from_bytes = Inl ValueError,
      AttenProfile_from_bytes = Inl ValueError,
      AtennCharRsp_from_bytes = Inl ValueError,
      MatchReq_from_bytes = Inl ValueError\<rparr>"

definition sound_frame :: "bytes \<Rightarrow> bytes \<Rightarrow> data_rcvd" where
  "sound_frame src rid =
     (hpav_frame src (CM_MNBC_SOUND OR MMTYPE_IND))
       \<lparr>MnbcSound_from_bytes := Inr \<lparr>ms_cnt = 9, ms_run_id = rid\<rparr>\<rparr>"

definition profile_frame :: "bytes \<Rightarrow> int list \<Rightarrow> data_rcvd" where
  "profile_frame pev xs =
     (hpav_frame pev (CM_ATTEN_PROFILE OR MMTYPE_IND))
       \<lparr>AttenProfile_from_bytes :=
          Inr \<lparr>ap_pev_mac = pev, ap_num_groups = int (length xs), ap_aag = xs\<rparr>\<rparr>"

definition start_frame :: "bytes \<Rightarrow> int \<Rightarrow> data_rcvd" where
  "start_frame rid n =
     (hpav_frame ev_mac (CM_START_ATTEN_CHAR OR MMTYPE_IND))
       \<lparr>StartAtennChar_from_bytes :=
          Inr \<lparr>sa_application_type = 0, sa_security_type = 0, sa_num_sounds = n,
               sa_time_out = 6, sa_resp_type = 1, sa_forwarding_sta = ev_mac,
               sa_run_id = rid\<rparr>\<rparr>"

definition rsp_frame :: "bytes \<Rightarrow> int \<Rightarrow> data_rcvd" where
  "rsp_frame rid res =
     (hpav_frame ev_mac (CM_ATTEN_CHAR OR 3))
       \<lparr>AtennCharRsp_from_bytes := Inr \<lparr>acr_run_id = rid, acr_result = res\<rparr>\<rparr>"

definition match_frame :: "bytes \<Rightarrow> data_rcvd" where
  "match_frame rid =
     (hpav_frame ev_mac (CM_SLAC_MATCH OR MMTYPE_REQ))
       \<lparr>MatchReq_from_bytes :=
          Inr \<lparr>mr_pev_id = 0, mr_pev_mac = ev_mac, mr_run_id = rid\<rparr>\<rparr>"

text \<open>Data whose EtherType is not HPAV (an IPv4 frame).\<close>

definition foreign_frame :: data_rcvd where
  "foreign_frame =
     (hpav_frame other_mac 0)
       \<lparr>EthernetHeader_from_bytes :=
          Inr \<lparr>dst_mac = host_mac, src_mac = other_mac, ether_type = 0x0800\<rparr>\<rparr>"

text \<open>A world that replays a list of read outcomes whatever size is asked for, and in
  which every later read times out; sends succeed; the clock reads \<open>clock k\<close>.\<close>

definition replay :: "(exn + data_rcvd) list \<Rightarrow> (nat \<Rightarrow> int) \<Rightarrow> world" where
  "replay rs clock =
     \<lparr>readeth = (\<lambda>k size. if k < length rs then rs ! k else Inl TimeoutError),
      sendeth = (\<lambda>k. None),
      time_now_ms = clock\<rparr>"

text \<open>A world in which every read yields the same data.\<close>

definition always :: "data_rcvd \<Rightarrow> (nat \<Rightarrow> int) \<Rightarrow> world" where
  "always d clock =
     \<lparr>readeth = (\<lambda>k size. Inr d), sendeth = (\<lambda>k. None), time_now_ms = clock\<rparr>"



text \<open>A matching routine on four frames: the start of the characterisation (one sound
  expected), one profile, a response of another run with the result 0, and a valid match
  request; then the log and the session as the sounding loop leaves them.\<close>

definition matching_run :: "(exn + data_rcvd) list" where
  "matching_run =
     [Inr (start_frame ev_run_id 1),
      Inr (profile_frame ev_mac [10, 20]),
      Inr (rsp_frame other_run_id 0),
      Inr (match_frame ev_run_id)]"

definition sounded_log :: io where
  "sounded_log =
     \<lparr>reads = [(Some 60, Inr (start_frame ev_run_id 1)),
               (Some 71, Inr (profile_frame ev_mac [10, 20]))],
      sent = []\<rparr>"

definition sounded_session :: SlacEvseSession where
  "sounded_session =
     matching_session
       \<lparr>forwarding_sta := ev_mac, num_expected_sounds := Some 1, num_total_sounds := 1,
        time_out_ms := 900, aag := Aag (10 # 20 # replicate 56 0), num_groups := Some 2\<rparr>"

text \<open>A fresh key, and a received \<^verbatim>\<open>SET_KEY.CNF\<close> frame of 33 bytes whose result byte is
  \<open>res\<close>.\<close>

definition fresh_key :: bytes where "fresh_key = replicate 16 0x33"

definition set_key_cnf :: "byte \<Rightarrow> bytes" where
  "set_key_cnf res = replicate 19 0 @ [res] @ replicate 13 0"

section \<open>Properties\<close>

subsection \<open>Running the loop\<close>

lemma sounds_while_Exit:
  "sounds_iteration D w t0 nfe sums i self = Exit x i' self'
   \<Longrightarrow> sounds_while D w t0 nfe sums i self = Some (x, i', self')"
  by (subst sounds_while.simps) simp


lemmas frame_defs = hpav_frame_def sound_frame_def profile_frame_def start_frame_def
  rsp_frame_def match_frame_def foreign_frame_def

lemmas const_defs = ETH_TYPE_HPAV_def HOMEPLUG_MMV_def MMTYPE_REQ_def MMTYPE_CNF_def
  MMTYPE_IND_def CM_SET_KEY_def CM_START_ATTEN_CHAR_def CM_ATTEN_CHAR_def CM_MNBC_SOUND_def
  CM_SLAC_MATCH_def CM_ATTEN_PROFILE_def SLAC_GROUPS_def SLAC_RESP_TYPE_def
  ATTEN_RESULTS_TIMEOUT_def

lemmas value_defs = example_deps_def matching_session_def no_io_def ev_mac_def other_mac_def
  ev_run_id_def other_run_id_def


subsection \<open>A read that times out\<close>




subsection \<open>Reset\<close>

text \<open>
  Claim C2, as the code has it. The claim lists \<^verbatim>\<open>evse_mac\<close> and \<^verbatim>\<open>evse_id\<close> among the
  fields that \<^verbatim>\<open>reset()\<close> leaves alone; the source assigns both, as its docstring says
  (only NID and NMK are not reset). So: \<^verbatim>\<open>reset()\<close> leaves \<^verbatim>\<open>nmk\<close> and \<^verbatim>\<open>nid\<close>
  unchanged, sets \<^verbatim>\<open>evse_mac\<close> to the empty byte string and \<^verbatim>\<open>evse_id\<close> to the
  configured \<^verbatim>\<open>EVSE_ID\<close>, and sets the state, the forwarding station, the PEV id and MAC,
  the run id, the application and security type, the counter of start indications, the
  expected and the total number of sounds, the time-out, the number of groups, the task
  handle and the remaining tuning values to the defaults of the dataclass; the counter
  of the MQTT messages is not touched. What is stored in \<^verbatim>\<open>aag\<close> is left out of this
  statement.
\<close>

theorem reset_fields:
  "nmk (reset D self) = nmk self \<and> nid (reset D self) = nid self
   \<and> evse_id (reset D self) = EVSE_ID D \<and> evse_mac (reset D self) = []
   \<and> state (reset D self) = STATE_UNMATCHED
   \<and> forwarding_sta (reset D self) = [] \<and> pev_id (reset D self) = None
   \<and> pev_mac (reset D self) = [] \<and> run_id (reset D self) = []
   \<and> application_type (reset D self) = 0 \<and> security_type (reset D self) = 0
   \<and> num_start_attn_rcvd (reset D self) = 0
   \<and> num_expected_sounds (reset D self) = None \<and> num_total_sounds (reset D self) = 0
   \<and> sounds (reset D self) = SLAC_MSOUNDS D
   \<and> time_out_ms (reset D self) = SLAC_ATTEN_TIMEOUT D
   \<and> num_groups (reset D self) = None \<and> rnd (reset D self) = replicate 17 0
   \<and> slac_threshold (reset D self) = SLAC_LIMIT D \<and> pause (reset D self) = SLAC_PAUSE D
   \<and> settle_time (reset D self) = SLAC_SETTLE_TIME D
   \<and> matching_process_task (reset D self) = None
   \<and> mqtt_msg_counter (reset D self) = mqtt_msg_counter self"
  by (simp add: reset_def)

theorem reset_fields_witness:
  "nmk (reset example_deps matching_session) = replicate 16 0x11
   \<and> nid (reset example_deps matching_session) = replicate 7 0x22
   \<and> evse_mac (reset example_deps matching_session) = []
   \<and> state (reset example_deps matching_session) = STATE_UNMATCHED
   \<and> time_out_ms (reset example_deps matching_session) = 6"
  using reset_fields [of example_deps matching_session]
  by (simp add: matching_session_def example_deps_def)

text \<open>Against the claim: the MAC of the host is gone after \<^verbatim>\<open>reset()\<close>, and \<^verbatim>\<open>aag\<close> is
  not a list of 58 zeros.\<close>

theorem reset_counterexample:
  "evse_mac (reset example_deps matching_session) \<noteq> evse_mac matching_session
   \<and> aag (reset example_deps matching_session) \<noteq> Aag (replicate 58 0)"
  by (simp add: reset_def matching_session_def host_mac_def)

subsection \<open>A match request of another run\<close>

text \<open>
  Claim C3, as the code has it. The claim says that a \<^verbatim>\<open>SLAC_MATCH.REQ\<close> with a run id
  other than the session's resets the state to Unmatched and that no \<^verbatim>\<open>MATCH.CNF\<close> is
  sent. The source ends the validation with \<^verbatim>\<open>raise ValueError\<close> and assigns nothing
  before it. So: when \<^verbatim>\<open>cm_slac_match\<close> receives a request that decodes and whose run
  id differs from the session's, it raises \<open>ValueError\<close>; no frame is sent (the log of
  sent frames is the one before the call) and no field of the session changes, the
  state included.
\<close>

theorem slac_match_wrong_run_id_raises:
  assumes "readeth w (length (reads i)) (Some (CM_SLAC_MATCH_REQ D)) = Inr data"
    and "EthernetHeader_from_bytes data = Inr ether_frame"
    and "HomePlugHeader_from_bytes data = Inr homeplug_frame"
    and "MatchReq_from_bytes data = Inr slac_match_req"
    and "mr_run_id slac_match_req \<noteq> run_id self"
  shows "cm_slac_match D w i self
           = (Some ValueError,
              i\<lparr>reads := reads i @ [(Some (CM_SLAC_MATCH_REQ D), Inr data)]\<rparr>, self)"
  using assms by (simp add: cm_slac_match_def rcv_frame_def Let_def)

theorem slac_match_wrong_run_id_raises_witness:
  "cm_slac_match example_deps (replay [Inr (match_frame other_run_id)] (\<lambda>k. 0)) no_io
       matching_session
     = (Some ValueError,
        \<lparr>reads = [(Some 85, Inr (match_frame other_run_id))], sent = []\<rparr>,
        matching_session)"
proof -
  let ?w = "replay [Inr (match_frame other_run_id)] (\<lambda>k. 0)"
  have 1: "readeth ?w (length (reads no_io)) (Some (CM_SLAC_MATCH_REQ example_deps))
             = Inr (match_frame other_run_id)"
    by (simp add: replay_def no_io_def)
  have 2: "EthernetHeader_from_bytes (match_frame other_run_id)
             = Inr \<lparr>dst_mac = host_mac, src_mac = ev_mac, ether_type = ETH_TYPE_HPAV\<rparr>"
    and 3: "HomePlugHeader_from_bytes (match_frame other_run_id)
             = Inr \<lparr>mmv = HOMEPLUG_MMV, mm_type = CM_SLAC_MATCH OR MMTYPE_REQ\<rparr>"
    and 4: "MatchReq_from_bytes (match_frame other_run_id)
             = Inr \<lparr>mr_pev_id = 0, mr_pev_mac = ev_mac, mr_run_id = other_run_id\<rparr>"
    by (simp_all add: frame_defs)
  have 5: "mr_run_id \<lparr>mr_pev_id = 0, mr_pev_mac = ev_mac, mr_run_id = other_run_id\<rparr>
             \<noteq> run_id matching_session"
    by (simp add: value_defs)
  show ?thesis
    using slac_match_wrong_run_id_raises [OF 1 2 3 4 5]
    by (simp add: no_io_def example_deps_def)
qed

text \<open>Against the claim: a session in the state Matching receives a request of another
  run. The call raises and the state is still Matching.\<close>

theorem slac_match_wrong_run_id_counterexample:
  "cm_slac_match example_deps (replay [Inr (match_frame other_run_id)] (\<lambda>k. 0)) no_io
       matching_session
     = (Some ValueError,
        \<lparr>reads = [(Some 85, Inr (match_frame other_run_id))], sent = []\<rparr>,
        matching_session)
   \<and> state matching_session = STATE_MATCHING"
  by (simp add: cm_slac_match_def rcv_frame_def Let_def replay_def frame_defs const_defs
        value_defs)

subsection \<open>A sound from another sender\<close>

text \<open>
  Claim C4, as the code has it. The claim says that a sound of the session's run whose
  Ethernet source is not \<^verbatim>\<open>pev_mac\<close> is only logged and that the loop goes on. In the
  source this case is \<^verbatim>\<open>raise ValueError\<close> in \<^verbatim>\<open>process_sound_frame\<close>, and the call
  in \<^verbatim>\<open>cm_sounds_loop\<close> stands outside the \<^verbatim>\<open>try\<close>. So: for an \<^verbatim>\<open>MNBC_SOUND.IND\<close>
  frame (EtherType and version as expected) whose run id is the session's and whose
  source MAC differs from \<^verbatim>\<open>pev_mac\<close>, \<^verbatim>\<open>process_sound_frame\<close> raises \<open>ValueError\<close>, the
  exception leaves \<^verbatim>\<open>cm_sounds_loop\<close> and ends the loop; no field of the session
  changes and \<^verbatim>\<open>num_total_sounds\<close> is not incremented.
\<close>

theorem sound_from_other_mac_raises:
  assumes "readeth w (length (reads i)) nfe = Inr data"
    and "EthernetHeader_from_bytes data = Inr ether_frame"
    and "HomePlugHeader_from_bytes data = Inr homeplug_frame"
    and "ether_type ether_frame = ETH_TYPE_HPAV"
    and "mmv homeplug_frame = HOMEPLUG_MMV"
    and "mm_type homeplug_frame = CM_MNBC_SOUND OR MMTYPE_IND"
    and "MnbcSound_from_bytes data = Inr mnbc_sound_ind"
    and "ms_run_id mnbc_sound_ind = run_id self"
    and "src_mac ether_frame \<noteq> pev_mac self"
  shows "process_sound_frame D self homeplug_frame ether_frame data n sums
           = (Inl ValueError, sums, self)
         \<and> sounds_while D w t0 nfe sums i self
           = Some (Raised ValueError, i\<lparr>reads := reads i @ [(nfe, Inr data)]\<rparr>, self)"
proof -
  have p: "process_sound_frame D self homeplug_frame ether_frame data m sums
             = (Inl ValueError, sums, self)" for m
    using assms by (auto simp add: process_sound_frame_def)
  have "sounds_iteration D w t0 nfe sums i self
          = Exit (Raised ValueError) (i\<lparr>reads := reads i @ [(nfe, Inr data)]\<rparr>) self"
    using assms by (simp add: sounds_iteration_def rcv_frame_def Let_def p)
  with p show ?thesis by (simp add: sounds_while_Exit)
qed

theorem sound_from_other_mac_raises_witness:
  "process_sound_frame example_deps matching_session
       \<lparr>mmv = HOMEPLUG_MMV, mm_type = CM_MNBC_SOUND OR MMTYPE_IND\<rparr>
       \<lparr>dst_mac = host_mac, src_mac = other_mac, ether_type = ETH_TYPE_HPAV\<rparr>
       (sound_frame other_mac ev_run_id) 0 (replicate 58 0)
     = (Inl ValueError, replicate 58 0, matching_session)
   \<and> sounds_while example_deps (replay [Inr (sound_frame other_mac ev_run_id)] (\<lambda>k. 0)) 0
       (Some 71) (replicate 58 0) no_io matching_session
     = Some (Raised ValueError,
             \<lparr>reads = [(Some 71, Inr (sound_frame other_mac ev_run_id))], sent = []\<rparr>,
             matching_session)"
proof -
  let ?w = "replay [Inr (sound_frame other_mac ev_run_id)] (\<lambda>k. 0)"
  let ?e = "\<lparr>dst_mac = host_mac, src_mac = other_mac, ether_type = ETH_TYPE_HPAV\<rparr>"
  let ?h = "\<lparr>mmv = HOMEPLUG_MMV, mm_type = CM_MNBC_SOUND OR MMTYPE_IND\<rparr>"
  let ?m = "\<lparr>ms_cnt = 9, ms_run_id = ev_run_id\<rparr>"
  have 1: "readeth ?w (length (reads no_io)) (Some 71) = Inr (sound_frame other_mac ev_run_id)"
    by (simp add: replay_def no_io_def)
  have 2: "EthernetHeader_from_bytes (sound_frame other_mac ev_run_id) = Inr ?e"
    and 3: "HomePlugHeader_from_bytes (sound_frame other_mac ev_run_id) = Inr ?h"
    and 7: "MnbcSound_from_bytes (sound_frame other_mac ev_run_id) = Inr ?m"
    by (simp_all add: frame_defs)
  have 4: "ether_type ?e = ETH_TYPE_HPAV" and 5: "mmv ?h = HOMEPLUG_MMV"
    and 6: "mm_type ?h = CM_MNBC_SOUND OR MMTYPE_IND"
    by simp_all
  have 8: "ms_run_id ?m = run_id matching_session"
    and 9: "src_mac ?e \<noteq> pev_mac matching_session"
    by (simp_all add: value_defs)
  show ?thesis
    using sound_from_other_mac_raises [OF 1 2 3 4 5 6 7 8 9, of example_deps 0
        "replicate 58 0" 0]
    by (simp add: no_io_def)
qed

text \<open>Against the claim: the first frame of the sounding is such a sound. The exception
  leaves \<^verbatim>\<open>cm_sounds_loop\<close> after this one read.\<close>

theorem sound_from_other_mac_counterexample:
  "cm_sounds_loop example_deps (replay [Inr (sound_frame other_mac ev_run_id)] (\<lambda>k. 0)) no_io
       matching_session
     = Some (Raised ValueError,
             \<lparr>reads = [(Some 71, Inr (sound_frame other_mac ev_run_id))], sent = []\<rparr>,
             matching_session)"
proof -
  let ?w = "replay [Inr (sound_frame other_mac ev_run_id)] (\<lambda>k. 0)"
  let ?s = "matching_session\<lparr>aag := Aag (replicate SLAC_GROUPS 0), num_total_sounds := 0\<rparr>"
  have "sounds_iteration example_deps ?w 0 (Some 71) (replicate SLAC_GROUPS 0) no_io ?s
          = Exit (Raised ValueError)
              \<lparr>reads = [(Some 71, Inr (sound_frame other_mac ev_run_id))], sent = []\<rparr>
              matching_session"
    by (simp add: Let_def sounds_iteration_def rcv_frame_def replay_def
          process_sound_frame_def frame_defs const_defs value_defs)
  then show ?thesis
    by (simp add: cm_sounds_loop_def replay_def no_io_def example_deps_def sounds_while_Exit)
qed

subsection \<open>Key provisioning\<close>

lemma SetKeyCnf_unpack_set_key_cnf:
  "SetKeyCnf_unpack (set_key_cnf r)
     = Some \<lparr>skc_result = r, skc_my_nonce = replicate 4 0, skc_your_nonce = replicate 4 0,
             skc_pid = 0, skc_prn = replicate 2 0, skc_pmn = 0, skc_cco_cap = 0\<rparr>"
  by (simp add: SetKeyCnf_unpack_def set_key_cnf_def Let_def nth_append)

text \<open>
  Claim C5, as the code has it. The claim says that in every case other than a
  confirmation that parses with a result other than 0xFF the old key stays and the
  function returns without raising, the missing confirmation included. In the source
  only the decoding stands in \<^verbatim>\<open>try\<close> / \<^verbatim>\<open>except ValueError\<close>; the awaited exchange
  with the modem stands before it. So: when the exchange returns a frame,
  \<^verbatim>\<open>evse_set_key\<close> returns it without raising, and it has stored the fresh
  \<^verbatim>\<open>nmk\<close> and the \<^verbatim>\<open>nid\<close> derived from it exactly when the frame parses as
  \<^verbatim>\<open>SET_KEY.CNF\<close> with a result other than 0xFF, and has changed nothing otherwise; when
  the exchange itself raises, the session is unchanged as well, but the exception leaves
  \<^verbatim>\<open>evse_set_key\<close>.
\<close>

theorem evse_set_key_commits:
  "evse_set_key D urandom16 send_recv_eth self =
     (case send_recv_eth
             \<lparr>ethernet_header = (evse_plc_mac self, evse_mac self),
              homeplug_header = CM_SET_KEY OR MMTYPE_REQ,
              message = SetKeyReq (generate_nid D urandom16) urandom16\<rparr>
             (CM_SET_KEY_CNF D) of
        Inl e \<Rightarrow> (Inl e, self)
      | Inr payload_rcvd \<Rightarrow>
          (Inr payload_rcvd,
           if \<exists>cnf. SetKeyCnf_unpack payload_rcvd = Some cnf \<and> skc_result cnf \<noteq> 0xFF
           then self\<lparr>nmk := urandom16, nid := generate_nid D urandom16\<rparr>
           else self))"
  by (auto simp add: evse_set_key_def SetKeyCnf_from_bytes_def Let_def
      split: sum.splits option.splits)

theorem evse_set_key_commits_witness:
  "evse_set_key example_deps fresh_key (\<lambda>f n. Inr (set_key_cnf 0)) matching_session
     = (Inr (set_key_cnf 0), matching_session\<lparr>nmk := fresh_key, nid := take 7 fresh_key\<rparr>)
   \<and> evse_set_key example_deps fresh_key (\<lambda>f n. Inr (set_key_cnf 0xFF)) matching_session
     = (Inr (set_key_cnf 0xFF), matching_session)
   \<and> evse_set_key example_deps fresh_key (\<lambda>f n. Inr []) matching_session
     = (Inr [], matching_session)"
  using evse_set_key_commits [of example_deps fresh_key "\<lambda>f n. Inr (set_key_cnf 0)"
      matching_session]
    evse_set_key_commits [of example_deps fresh_key "\<lambda>f n. Inr (set_key_cnf 0xFF)"
      matching_session]
    evse_set_key_commits [of example_deps fresh_key "\<lambda>f n. Inr []" matching_session]
  by (simp add: SetKeyCnf_unpack_set_key_cnf example_deps_def)
    (simp add: SetKeyCnf_unpack_def)

text \<open>Against the claim: the socket fails during the exchange, no confirmation is
  obtained. The old key stays, but the call raises.\<close>

theorem evse_set_key_exchange_fails_counterexample:
  "evse_set_key example_deps fresh_key (\<lambda>f n. Inl OSError) matching_session
     = (Inl OSError, matching_session)"
  by (simp add: evse_set_key_def Let_def)

subsection \<open>Frames that are not HomePlug AV\<close>

lemma sounds_iteration_foreign:
  assumes "readeth w (length (reads i)) nfe = Inr data"
    and "EthernetHeader_from_bytes data = Inr ether_frame"
    and "HomePlugHeader_from_bytes data = Inr homeplug_frame"
    and "\<not> (ether_type ether_frame = ETH_TYPE_HPAV \<and> mmv homeplug_frame = HOMEPLUG_MMV)"
  shows "sounds_iteration D w t0 nfe sums i self
           = Continue nfe sums (i\<lparr>reads := reads i @ [(nfe, Inr data)]\<rparr>) self"
  using assms by (auto simp add: sounds_iteration_def rcv_frame_def Let_def)

lemma sounds_iteration_skipped:
  assumes "skipped (readeth w (length (reads i)) nfe)"
  shows "\<exists>i'. sounds_iteration D w t0 nfe sums i self = Continue nfe sums i' self
              \<and> length (reads i') = Suc (length (reads i))"
proof -
  from assms obtain data ether_frame homeplug_frame
    where "readeth w (length (reads i)) nfe = Inr data"
      and "EthernetHeader_from_bytes data = Inr ether_frame"
      and "HomePlugHeader_from_bytes data = Inr homeplug_frame"
      and "\<not> (ether_type ether_frame = ETH_TYPE_HPAV \<and> mmv homeplug_frame = HOMEPLUG_MMV)"
    by (auto simp add: skipped_def split: sum.splits)
  from sounds_iteration_foreign [OF this] show ?thesis by simp
qed

lemma sounds_while_skipped:
  assumes "sounds_while D w t0 nfe sums i self = Some y"
  shows "\<exists>k\<ge>length (reads i). \<not> skipped (readeth w k nfe)"
proof (rule sounds_while.raw_induct
    [where P = "\<lambda>D w t0 nfe sums i self y. \<exists>k\<ge>length (reads i). \<not> skipped (readeth w k nfe)",
      OF _ assms])
  fix loop D w t0 nfe sums i self y
  assume IH: "\<And>D w t0 nfe sums i self y. loop D w t0 nfe sums i self = Some y
                \<Longrightarrow> \<exists>k\<ge>length (reads i). \<not> skipped (readeth w k nfe)"
    and step: "(case sounds_iteration D w t0 nfe sums i self of
                  Continue nfe' sums' i' self' \<Rightarrow> loop D w t0 nfe' sums' i' self'
                | Exit x i' self' \<Rightarrow> Some (x, i', self')) = Some y"
  show "\<exists>k\<ge>length (reads i). \<not> skipped (readeth w k nfe)"
  proof (cases "skipped (readeth w (length (reads i)) nfe)")
    case False
    then show ?thesis by blast
  next
    case True
    from sounds_iteration_skipped [OF True]
    obtain i' where it: "sounds_iteration D w t0 nfe sums i self = Continue nfe sums i' self"
      and len: "length (reads i') = Suc (length (reads i))"
      by blast
    from step it have "loop D w t0 nfe sums i' self = Some y" by simp
    from IH [OF this] obtain k where "k \<ge> length (reads i')"
      and "\<not> skipped (readeth w k nfe)" by blast
    with len show ?thesis by (intro exI [of _ k]) simp
  qed
qed

text \<open>
  Claim C9. The expiry check of \<^verbatim>\<open>cm_sounds_loop\<close> stands inside the branch for frames
  with EtherType 0x88E1 and version 0x01; a frame that fails this test sends the loop
  straight back to the next read. Hence, in every world in which each read from now on
  succeeds and yields a frame that fails the test, the loop never returns, whatever the
  clock of that world reads.
\<close>

theorem skipped_frames_never_end_sounds_loop:
  assumes "\<forall>k\<ge>length (reads i). skipped (readeth w k (Some (CM_MNBC_SOUND_IND D)))"
  shows "cm_sounds_loop D w i self = None"
proof (rule ccontr)
  assume "cm_sounds_loop D w i self \<noteq> None"
  then obtain y where "cm_sounds_loop D w i self = Some y" by blast
  then have "\<exists>k\<ge>length (reads i). \<not> skipped (readeth w k (Some (CM_MNBC_SOUND_IND D)))"
    unfolding cm_sounds_loop_def by (rule sounds_while_skipped)
  with assms show False by blast
qed

theorem skipped_frames_never_end_sounds_loop_witness:
  "cm_sounds_loop example_deps (always foreign_frame (\<lambda>k. 1000000 * int k)) no_io
     matching_session = None"
proof -
  have "\<forall>k\<ge>length (reads no_io).
          skipped (readeth (always foreign_frame (\<lambda>k. 1000000 * int k)) k
                     (Some (CM_MNBC_SOUND_IND example_deps)))"
    by (simp add: always_def skipped_def frame_defs const_defs)
  then show ?thesis by (rule skipped_frames_never_end_sounds_loop)
qed

subsection \<open>Frames of another message type\<close>




subsection \<open>The example values, field by field\<close>

lemma example_deps_simps:
  "CM_START_ATTEN_CHAR_IND example_deps = 60"
  "CM_MNBC_SOUND_IND example_deps = 71"
  "CM_ATTEN_PROFILE_IND example_deps = 85"
  "CM_ATTEN_CHAR_RSP example_deps = 70"
  "CM_SLAC_MATCH_REQ example_deps = 85"
  "hw_quot example_deps a n = (2 * a + n) div (2 * n)"
  "generate_nid example_deps = take 7"
  by (simp_all add: example_deps_def)

lemma matching_session_simps:
  "state matching_session = STATE_MATCHING"
  "pev_mac matching_session = ev_mac"
  "evse_mac matching_session = host_mac"
  "run_id matching_session = ev_run_id"
  "application_type matching_session = 0"
  "security_type matching_session = 0"
  "num_expected_sounds matching_session = Some 10"
  "num_total_sounds matching_session = 0"
  "time_out_ms matching_session = 900"
  "aag matching_session = Aag (replicate 58 0)"
  "num_groups matching_session = None"
  "nmk matching_session = replicate 16 0x11"
  "nid matching_session = replicate 7 0x22"
  by (simp_all add: matching_session_def)

lemma frame_simps:
  "EthernetHeader_from_bytes (hpav_frame src mt)
     = Inr \<lparr>dst_mac = host_mac, src_mac = src, ether_type = ETH_TYPE_HPAV\<rparr>"
  "HomePlugHeader_from_bytes (hpav_frame src mt) = Inr \<lparr>mmv = HOMEPLUG_MMV, mm_type = mt\<rparr>"
  "EthernetHeader_from_bytes (sound_frame src rid)
     = Inr \<lparr>dst_mac = host_mac, src_mac = src, ether_type = ETH_TYPE_HPAV\<rparr>"
  "HomePlugHeader_from_bytes (sound_frame src rid)
     = Inr \<lparr>mmv = HOMEPLUG_MMV, mm_type = CM_MNBC_SOUND OR MMTYPE_IND\<rparr>"
  "MnbcSound_from_bytes (sound_frame src rid) = Inr \<lparr>ms_cnt = 9, ms_run_id = rid\<rparr>"
  "EthernetHeader_from_bytes (profile_frame pev xs)
     = Inr \<lparr>dst_mac = host_mac, src_mac = pev, ether_type = ETH_TYPE_HPAV\<rparr>"
  "HomePlugHeader_from_bytes (profile_frame pev xs)
     = Inr \<lparr>mmv = HOMEPLUG_MMV, mm_type = CM_ATTEN_PROFILE OR MMTYPE_IND\<rparr>"
  "AttenProfile_from_bytes (profile_frame pev xs)
     = Inr \<lparr>ap_pev_mac = pev, ap_num_groups = int (length xs), ap_aag = xs\<rparr>"
  "EthernetHeader_from_bytes (start_frame rid n)
     = Inr \<lparr>dst_mac = host_mac, src_mac = ev_mac, ether_type = ETH_TYPE_HPAV\<rparr>"
  "HomePlugHeader_from_bytes (start_frame rid n)
     = Inr \<lparr>mmv = HOMEPLUG_MMV, mm_type = CM_START_ATTEN_CHAR OR MMTYPE_IND\<rparr>"
  "StartAtennChar_from_bytes (start_frame rid n)
     = Inr \<lparr>sa_application_type = 0, sa_security_type = 0, sa_num_sounds = n,
            sa_time_out = 6, sa_resp_type = 1, sa_forwarding_sta = ev_mac, sa_run_id = rid\<rparr>"
  "EthernetHeader_from_bytes (rsp_frame rid res)
     = Inr \<lparr>dst_mac = host_mac, src_mac = ev_mac, ether_type = ETH_TYPE_HPAV\<rparr>"
  "HomePlugHeader_from_bytes (rsp_frame rid res)
     = Inr \<lparr>mmv = HOMEPLUG_MMV, mm_type = CM_ATTEN_CHAR OR 3\<rparr>"
  "AtennCharRsp_from_bytes (rsp_frame rid res) = Inr \<lparr>acr_run_id = rid, acr_result = res\<rparr>"
  "EthernetHeader_from_bytes (match_frame rid)
     = Inr \<lparr>dst_mac = host_mac, src_mac = ev_mac, ether_type = ETH_TYPE_HPAV\<rparr>"
  "HomePlugHeader_from_bytes (match_frame rid)
     = Inr \<lparr>mmv = HOMEPLUG_MMV, mm_type = CM_SLAC_MATCH OR MMTYPE_REQ\<rparr>"
  "MatchReq_from_bytes (match_frame rid)
     = Inr \<lparr>mr_pev_id = 0, mr_pev_mac = ev_mac, mr_run_id = rid\<rparr>"
  by (simp_all add: frame_defs)

lemma replay_simps:
  "readeth (replay rs clock) k sz = (if k < length rs then rs ! k else Inl TimeoutError)"
  "sendeth (replay rs clock) k = None"
  "time_now_ms (replay rs clock) k = clock k"
  by (simp_all add: replay_def)

lemma mm_type_distinct:
  "CM_ATTEN_PROFILE OR MMTYPE_IND \<noteq> CM_MNBC_SOUND OR MMTYPE_IND"
  by (simp add: const_defs)

subsection \<open>The two loops over the groups\<close>

lemma add_groups_length:
  "add_groups gs sums profile = (r, sums') \<Longrightarrow> length sums' = length sums"
  by (induction gs arbitrary: sums) (auto split: if_splits)


lemma store_averages_in_range:
  "\<forall>g\<in>set gs. g < length sums \<and> g < length self_aag
   \<Longrightarrow> store_averages D gs sums n self_aag
       = (None, fold (\<lambda>g xs. xs[g := hw_quot D (sums ! g) n]) gs self_aag)"
  by (induction gs arbitrary: self_aag) simp_all

lemma fold_update_upt:
  "m \<le> length xs
   \<Longrightarrow> fold (\<lambda>g xs. xs[g := f g]) [0..<m] xs = map f [0..<m] @ drop m xs"
proof (induction m)
  case 0
  then show ?case by simp
next
  case (Suc m)
  then have "m < length xs" by simp
  then have "drop m xs = xs ! m # drop (Suc m) xs"
    by (simp add: Cons_nth_drop_Suc)
  with Suc show ?case
    by (simp add: list_update_append)
qed

lemma store_averages_all:
  assumes "length sums = m" and "length self_aag = m"
  shows "store_averages D [0..<m] sums n self_aag
           = (None, map (\<lambda>g. hw_quot D (sums ! g) n) [0..<m])"
  using assms by (simp add: store_averages_in_range fold_update_upt)

lemma finish_sounds_averages:
  assumes "length sums = SLAC_GROUPS" and "aag self = Aag zs" and "length zs = SLAC_GROUPS"
  shows "finish_sounds D t sums self
           = (Finished t,
              if num_total_sounds self > 0
              then self\<lparr>aag := Aag (map (\<lambda>g. hw_quot D (sums ! g) (num_total_sounds self))
                                       [0..<SLAC_GROUPS])\<rparr>
              else self)"
  using assms by (simp add: finish_sounds_def store_averages_all)

subsection \<open>The number of sounds at the exit of the loop\<close>

lemma process_sound_frame_fields:
  assumes "process_sound_frame D self homeplug_frame ether_frame data n sums = (r, sums', self')"
  shows "num_total_sounds self \<le> num_total_sounds self'
         \<and> num_total_sounds self' \<le> num_total_sounds self + 1
         \<and> num_expected_sounds self' = num_expected_sounds self
         \<and> time_out_ms self' = time_out_ms self
         \<and> pev_mac self' = pev_mac self
         \<and> aag self' = aag self
         \<and> length sums' = length sums"
  using assms
  by (auto simp add: process_sound_frame_def add_groups_length
      split: if_splits sum.splits prod.splits option.splits)

lemma finish_sounds_fields:
  assumes "finish_sounds D t sums self = (x, self')"
  shows "num_total_sounds self' = num_total_sounds self
         \<and> num_expected_sounds self' = num_expected_sounds self
         \<and> time_out_ms self' = time_out_ms self
         \<and> pev_mac self' = pev_mac self"
  using assms
  by (auto simp add: finish_sounds_def split: if_splits aag_value.splits prod.splits option.splits)

lemma sounds_iteration_bound:
  assumes "num_expected_sounds self = Some expected"
    and "num_total_sounds self = 0 \<or> num_total_sounds self < expected"
  shows "case sounds_iteration D w t0 nfe sums i self of
           Continue nfe' sums' i' self' \<Rightarrow>
             num_expected_sounds self' = Some expected
             \<and> (num_total_sounds self' = 0 \<or> num_total_sounds self' < expected)
         | Exit x i' self' \<Rightarrow>
             num_expected_sounds self' = Some expected
             \<and> num_total_sounds self' \<le> max 1 expected"
proof -
  have fin: "num_expected_sounds s'' = Some expected \<and> num_total_sounds s'' \<le> max 1 expected"
    if "process_sound_frame D self hp e d 0 sums = (r, sums', s')"
      and "finish_sounds D t sums' s' = (x, s'')" for hp e d r sums' s' t x s''
    using process_sound_frame_fields [OF that(1)] finish_sounds_fields [OF that(2)] assms
    by auto
  have psf: "num_expected_sounds s' = Some expected \<and> num_total_sounds s' \<le> max 1 expected"
    if "process_sound_frame D self hp e d 0 sums = (r, sums', s')" for hp e d r sums' s'
    using process_sound_frame_fields [OF that] assms by auto
  show ?thesis
    using assms
    by (auto simp add: sounds_iteration_def rcv_frame_def Let_def
        split: sum.splits prod.splits option.splits dest: fin psf)
qed

lemma sounds_while_bound:
  assumes "sounds_while D w t0 nfe sums i self = Some y"
  shows "\<forall>expected. num_expected_sounds self = Some expected
           \<and> (num_total_sounds self = 0 \<or> num_total_sounds self < expected)
         \<longrightarrow> num_expected_sounds (snd (snd y)) = Some expected
             \<and> num_total_sounds (snd (snd y)) \<le> max 1 expected"
proof (rule sounds_while.raw_induct
    [where P = "\<lambda>D w t0 nfe sums i self y.
        \<forall>expected. num_expected_sounds self = Some expected
           \<and> (num_total_sounds self = 0 \<or> num_total_sounds self < expected)
         \<longrightarrow> num_expected_sounds (snd (snd y)) = Some expected
             \<and> num_total_sounds (snd (snd y)) \<le> max 1 expected",
      OF _ assms])
  fix loop D w t0 nfe sums i self y
  assume IH: "\<And>D w t0 nfe sums i self y. loop D w t0 nfe sums i self = Some y
                \<Longrightarrow> \<forall>expected. num_expected_sounds self = Some expected
                       \<and> (num_total_sounds self = 0 \<or> num_total_sounds self < expected)
                     \<longrightarrow> num_expected_sounds (snd (snd y)) = Some expected
                         \<and> num_total_sounds (snd (snd y)) \<le> max 1 expected"
    and step: "(case sounds_iteration D w t0 nfe sums i self of
                  Continue nfe' sums' i' self' \<Rightarrow> loop D w t0 nfe' sums' i' self'
                | Exit x i' self' \<Rightarrow> Some (x, i', self')) = Some y"
  show "\<forall>expected. num_expected_sounds self = Some expected
           \<and> (num_total_sounds self = 0 \<or> num_total_sounds self < expected)
         \<longrightarrow> num_expected_sounds (snd (snd y)) = Some expected
             \<and> num_total_sounds (snd (snd y)) \<le> max 1 expected"
  proof (intro allI impI)
    fix expected
    assume pre: "num_expected_sounds self = Some expected
                 \<and> (num_total_sounds self = 0 \<or> num_total_sounds self < expected)"
    then have b: "case sounds_iteration D w t0 nfe sums i self of
           Continue nfe' sums' i' self' \<Rightarrow>
             num_expected_sounds self' = Some expected
             \<and> (num_total_sounds self' = 0 \<or> num_total_sounds self' < expected)
         | Exit x i' self' \<Rightarrow>
             num_expected_sounds self' = Some expected
             \<and> num_total_sounds self' \<le> max 1 expected"
      by (intro sounds_iteration_bound) simp_all
    show "num_expected_sounds (snd (snd y)) = Some expected
          \<and> num_total_sounds (snd (snd y)) \<le> max 1 expected"
    proof (cases "sounds_iteration D w t0 nfe sums i self")
      case (Continue nfe' sums' i' self')
      with step have "loop D w t0 nfe' sums' i' self' = Some y" by simp
      from IH [OF this] b Continue show ?thesis by auto
    next
      case (Exit x i' self')
      with step b show ?thesis by auto
    qed
  qed
qed

text \<open>
  Claim C7, as the code has it. The claim says that at the exit of the reception loop
  \<^verbatim>\<open>num_total_sounds \<le> num_expected_sounds\<close> holds or the window has expired. The
  check \<^verbatim>\<open>num_total_sounds < num_expected_sounds\<close> is made after a frame has been
  counted, so the first profile is counted even when no sound is expected. So: when
  \<^verbatim>\<open>num_expected_sounds\<close> is set, at every exit of \<^verbatim>\<open>cm_sounds_loop\<close> (the return
  after a failed read, the return at the end of the loop body, an exception)
  \<^verbatim>\<open>num_total_sounds \<le> max(1, num_expected_sounds)\<close> holds, whether or not the window
  has expired; for at least one expected sound this is the bound of the claim.
\<close>

theorem sounds_loop_exit_bound:
  assumes "cm_sounds_loop D w i self = Some (x, i', self')"
    and "num_expected_sounds self = Some expected"
  shows "num_total_sounds self' \<le> max 1 expected
         \<and> num_expected_sounds self' = Some expected"
  using sounds_while_bound [OF assms(1) [unfolded cm_sounds_loop_def]] assms(2)
  by simp

lemma one_profile_run:
  assumes "n \<le> 1"
  shows "cm_sounds_loop example_deps (replay [Inr (profile_frame ev_mac [10, 20])] (\<lambda>k. 0))
             no_io (matching_session\<lparr>num_expected_sounds := Some n\<rparr>)
           = Some (Finished 0,
                   \<lparr>reads = [(Some 71, Inr (profile_frame ev_mac [10, 20]))], sent = []\<rparr>,
                   matching_session
                     \<lparr>num_expected_sounds := Some n, num_total_sounds := 1,
                      aag := Aag (10 # 20 # replicate 56 0), num_groups := Some 2\<rparr>)"
proof -
  let ?w = "replay [Inr (profile_frame ev_mac [10, 20])] (\<lambda>k. 0)"
  let ?s = "matching_session\<lparr>num_expected_sounds := Some n,
              aag := Aag (replicate SLAC_GROUPS 0), num_total_sounds := 0\<rparr>"
  let ?sums = "10 # 20 # replicate 56 (0::int)"
  let ?s1 = "?s\<lparr>num_groups := Some 2, num_total_sounds := 1\<rparr>"
  have r: "replicate 58 (0::int) = 0 # 0 # replicate 56 0"
    by (simp add: replicate_Suc [symmetric] del: replicate_Suc)
  have u: "[0..<2] = [0, Suc 0]"
    by (simp add: numeral_2_eq_2)
  have ag: "add_groups [0..<2] (replicate 58 0) [10, 20] = (None, ?sums)"
    by (simp add: r u)
  have psf: "process_sound_frame example_deps ?s
               \<lparr>mmv = HOMEPLUG_MMV, mm_type = CM_ATTEN_PROFILE OR MMTYPE_IND\<rparr>
               \<lparr>dst_mac = host_mac, src_mac = ev_mac, ether_type = ETH_TYPE_HPAV\<rparr>
               (profile_frame ev_mac [10, 20]) 0 (replicate SLAC_GROUPS 0)
             = (Inr (Some 71), ?sums, ?s1)"
    by (simp add: process_sound_frame_def mm_type_distinct frame_simps matching_session_simps
          example_deps_simps ag SLAC_GROUPS_def)
  have "map (\<lambda>g. hw_quot example_deps (?sums ! g) 1) [0..<SLAC_GROUPS]
          = map ((!) ?sums) [0..<length ?sums]"
    by (simp add: example_deps_simps SLAC_GROUPS_def)
  then have m: "map (\<lambda>g. hw_quot example_deps (?sums ! g) 1) [0..<SLAC_GROUPS] = ?sums"
    by (simp only: map_nth)
  have fin: "finish_sounds example_deps 0 ?sums ?s1
               = (Finished 0, ?s1\<lparr>aag := Aag ?sums\<rparr>)"
    using finish_sounds_averages [of ?sums ?s1 "replicate SLAC_GROUPS 0" example_deps 0] m
    by (simp add: SLAC_GROUPS_def)
  have "sounds_iteration example_deps ?w 0 (Some 71) (replicate SLAC_GROUPS 0) no_io ?s
          = Exit (Finished 0)
              \<lparr>reads = [(Some 71, Inr (profile_frame ev_mac [10, 20]))], sent = []\<rparr>
              (?s1\<lparr>aag := Aag ?sums\<rparr>)"
    using assms
    by (simp add: sounds_iteration_def rcv_frame_def Let_def replay_simps no_io_def
          frame_simps psf fin [simplified] matching_session_simps)
  then show ?thesis
    by (simp add: cm_sounds_loop_def replay_simps no_io_def example_deps_simps
          sounds_while_Exit)
qed

theorem sounds_loop_exit_bound_witness:
  "num_total_sounds
     (matching_session
        \<lparr>num_expected_sounds := Some 1, num_total_sounds := 1,
         aag := Aag (10 # 20 # replicate 56 0), num_groups := Some 2\<rparr>) \<le> max 1 1
   \<and> num_expected_sounds
     (matching_session
        \<lparr>num_expected_sounds := Some 1, num_total_sounds := 1,
         aag := Aag (10 # 20 # replicate 56 0), num_groups := Some 2\<rparr>) = Some 1"
proof -
  have 1: "num_expected_sounds (matching_session\<lparr>num_expected_sounds := Some 1\<rparr>) = Some 1"
    by simp
  show ?thesis
    by (rule sounds_loop_exit_bound [OF one_profile_run 1]) simp
qed

text \<open>Against the claim: no sound is expected, and the first frame is a profile of the
  vehicle, taken at 0 ms of a window of 900 ms. The loop returns with one sound counted:
  more than expected, and the window has not expired.\<close>

theorem zero_expected_sounds_counterexample:
  "cm_sounds_loop example_deps (replay [Inr (profile_frame ev_mac [10, 20])] (\<lambda>k. 0))
       no_io (matching_session\<lparr>num_expected_sounds := Some 0\<rparr>)
     = Some (Finished 0,
             \<lparr>reads = [(Some 71, Inr (profile_frame ev_mac [10, 20]))], sent = []\<rparr>,
             matching_session
               \<lparr>num_expected_sounds := Some 0, num_total_sounds := 1,
                aag := Aag (10 # 20 # replicate 56 0), num_groups := Some 2\<rparr>)
   \<and> time_out_ms matching_session = 900"
  by (simp add: one_profile_run) (simp add: matching_session_def)

subsection \<open>The averages\<close>












lemma map_nth_comp: "map (\<lambda>g. f (xs ! g)) [0..<length xs] = map f xs"
proof -
  have "map (\<lambda>g. f (xs ! g)) [0..<length xs] = map f (map ((!) xs) [0..<length xs])"
    by simp
  then show ?thesis by (simp only: map_nth)
qed




subsection \<open>A response of another run, then a match\<close>

text \<open>
  Claim C8. When the \<^verbatim>\<open>ATTEN_CHAR.RSP\<close> that \<^verbatim>\<open>cm_atten_char\<close> receives decodes, carries
  a run id other than the session's and the result 0, the method sets the state to
  Unmatched and returns (its mismatch branch has no \<^verbatim>\<open>return\<close>, and no exception is
  raised). \<^verbatim>\<open>atten_charac_routine\<close> looks at no state between its steps, so it goes on to
  \<^verbatim>\<open>cm_slac_match\<close>; with a valid \<^verbatim>\<open>SLAC_MATCH.REQ\<close> as the next frame, this sends the
  \<^verbatim>\<open>MATCH.CNF\<close> and sets the state to Matched. The premises fix such a run: the
  sounding loop has returned, both sends succeed, the response is of another run with
  result 0, and the request is valid.
\<close>

theorem run_id_mismatch_in_rsp_still_matches:
  assumes start: "cm_start_atten_charac D w i self = (i1, self1)"
    and sounds: "cm_sounds_loop D w i1 self1 = Some (x, i2, self2)"
    and returned: "x = ReadFailed \<or> x = Finished t"
    and send_ind: "sendeth w (length (sent i2)) = None"
    and rsp: "readeth w (length (reads i2)) (Some (CM_ATTEN_CHAR_RSP D)) = Inr data"
    and rsp_ether: "EthernetHeader_from_bytes data = Inr ether_frame"
    and rsp_homeplug: "HomePlugHeader_from_bytes data = Inr homeplug_frame"
    and rsp_payload: "AtennCharRsp_from_bytes data = Inr atten_charac_response"
    and other_run: "acr_run_id atten_charac_response \<noteq> run_id self2"
    and result_0: "acr_result atten_charac_response = 0"
    and req: "readeth w (Suc (length (reads i2))) (Some (CM_SLAC_MATCH_REQ D)) = Inr data'"
    and req_ether: "EthernetHeader_from_bytes data' = Inr ether_frame'"
    and req_homeplug: "HomePlugHeader_from_bytes data' = Inr homeplug_frame'"
    and req_payload: "MatchReq_from_bytes data' = Inr slac_match_req"
    and req_valid: "ether_type ether_frame' = ETH_TYPE_HPAV" "mmv homeplug_frame' = HOMEPLUG_MMV"
      "mm_type homeplug_frame' = CM_SLAC_MATCH OR MMTYPE_REQ"
      "mr_run_id slac_match_req = run_id self2"
    and send_cnf: "sendeth w (Suc (length (sent i2))) = None"
  shows "cm_atten_char D w i2 self2
           = (None,
              \<lparr>reads = reads i2 @ [(Some (CM_ATTEN_CHAR_RSP D), Inr data)],
               sent = sent i2 @
                 [\<lparr>ethernet_header = (pev_mac self2, evse_mac self2),
                   homeplug_header = CM_ATTEN_CHAR OR MMTYPE_IND,
                   message = AtennChar (pev_mac self2) (run_id self2) (num_total_sounds self2)
                               (num_groups self2) (aag self2)\<rparr>]\<rparr>,
              self2\<lparr>state := STATE_UNMATCHED\<rparr>)
         \<and> atten_charac_routine D w i self
           = Some (None,
                   \<lparr>reads = reads i2 @ [(Some (CM_ATTEN_CHAR_RSP D), Inr data),
                                        (Some (CM_SLAC_MATCH_REQ D), Inr data')],
                    sent = sent i2 @
                      [\<lparr>ethernet_header = (pev_mac self2, evse_mac self2),
                        homeplug_header = CM_ATTEN_CHAR OR MMTYPE_IND,
                        message = AtennChar (pev_mac self2) (run_id self2)
                                    (num_total_sounds self2) (num_groups self2) (aag self2)\<rparr>,
                       \<lparr>ethernet_header = (mr_pev_mac slac_match_req, evse_mac self2),
                        homeplug_header = CM_SLAC_MATCH OR MMTYPE_CNF,
                        message = MatchCnf (mr_pev_mac slac_match_req) (evse_mac self2)
                                    (run_id self2) (nid self2) (nmk self2)\<rparr>]\<rparr>,
                   self2\<lparr>state := STATE_MATCHED,
                         pev_id := Some (mr_pev_id slac_match_req),
                         pev_mac := mr_pev_mac slac_match_req\<rparr>)"
proof -
  let ?ind = "\<lparr>ethernet_header = (pev_mac self2, evse_mac self2),
               homeplug_header = CM_ATTEN_CHAR OR MMTYPE_IND,
               message = AtennChar (pev_mac self2) (run_id self2) (num_total_sounds self2)
                           (num_groups self2) (aag self2)\<rparr>"
  let ?i3 = "\<lparr>reads = reads i2 @ [(Some (CM_ATTEN_CHAR_RSP D), Inr data)],
              sent = sent i2 @ [?ind]\<rparr>"
  have a: "cm_atten_char D w i2 self2 = (None, ?i3, self2\<lparr>state := STATE_UNMATCHED\<rparr>)"
    using send_ind rsp rsp_ether rsp_homeplug rsp_payload other_run result_0
    by (simp add: cm_atten_char_def send_frame_def rcv_frame_def Let_def)
  have m: "cm_slac_match D w ?i3 (self2\<lparr>state := STATE_UNMATCHED\<rparr>)
             = (None,
                \<lparr>reads = reads i2 @ [(Some (CM_ATTEN_CHAR_RSP D), Inr data),
                                     (Some (CM_SLAC_MATCH_REQ D), Inr data')],
                 sent = sent i2 @
                   [?ind,
                    \<lparr>ethernet_header = (mr_pev_mac slac_match_req, evse_mac self2),
                     homeplug_header = CM_SLAC_MATCH OR MMTYPE_CNF,
                     message = MatchCnf (mr_pev_mac slac_match_req) (evse_mac self2)
                                 (run_id self2) (nid self2) (nmk self2)\<rparr>]\<rparr>,
                self2\<lparr>state := STATE_MATCHED,
                      pev_id := Some (mr_pev_id slac_match_req),
                      pev_mac := mr_pev_mac slac_match_req\<rparr>)"
    using req req_ether req_homeplug req_payload req_valid send_cnf
    by (simp add: cm_slac_match_def send_frame_def rcv_frame_def Let_def)
  from returned have "atten_charac_routine D w i self
                        = Some (cm_slac_match D w ?i3 (self2\<lparr>state := STATE_UNMATCHED\<rparr>))"
    by (auto simp add: atten_charac_routine_def start sounds a)
  with a m show ?thesis by simp
qed

lemma matching_run_start:
  "cm_start_atten_charac example_deps (replay matching_run (\<lambda>k. 0)) no_io matching_session
     = (\<lparr>reads = [(Some 60, Inr (start_frame ev_run_id 1))], sent = []\<rparr>,
        matching_session\<lparr>num_expected_sounds := Some 1, time_out_ms := 900,
                         forwarding_sta := ev_mac\<rparr>)"
  by (simp add: cm_start_atten_charac_def rcv_frame_def Let_def replay_simps matching_run_def
        no_io_def frame_simps matching_session_simps example_deps_simps SLAC_RESP_TYPE_def
        ATTEN_RESULTS_TIMEOUT_def)

lemma matching_run_sounds:
  "cm_sounds_loop example_deps (replay matching_run (\<lambda>k. 0))
       \<lparr>reads = [(Some 60, Inr (start_frame ev_run_id 1))], sent = []\<rparr>
       (matching_session\<lparr>num_expected_sounds := Some 1, time_out_ms := 900,
                         forwarding_sta := ev_mac\<rparr>)
     = Some (Finished 0, sounded_log, sounded_session)"
proof -
  let ?w = "replay matching_run (\<lambda>k. 0)"
  let ?i1 = "\<lparr>reads = [(Some 60, Inr (start_frame ev_run_id 1))], sent = []\<rparr>"
  let ?s = "matching_session\<lparr>num_expected_sounds := Some 1, time_out_ms := 900,
              forwarding_sta := ev_mac, aag := Aag (replicate 58 0), num_total_sounds := 0\<rparr>"
  let ?s1 = "?s\<lparr>num_groups := Some 2, num_total_sounds := 1\<rparr>"
  let ?a = "10 # 20 # replicate 56 (0::int)"
  have r: "replicate 58 (0::int) = 0 # 0 # replicate 56 0"
    by (simp add: replicate_Suc [symmetric] del: replicate_Suc)
  have u: "[0..<2] = [0, Suc 0]"
    by (simp add: numeral_2_eq_2)
  have g: "add_groups [0..<2] (replicate 58 0) [10, 20] = (None, ?a)"
    by (simp add: r u)
  have "map (\<lambda>g. hw_quot example_deps (?a ! g) 1) [0..<length ?a]
          = map (\<lambda>a. hw_quot example_deps a 1) ?a"
    by (rule map_nth_comp)
  then have m: "map (\<lambda>g. hw_quot example_deps (?a ! g) 1) [0..<SLAC_GROUPS] = ?a"
    by (simp add: example_deps_simps SLAC_GROUPS_def)
  have fin: "finish_sounds example_deps 0 ?a ?s1 = (Finished 0, ?s1\<lparr>aag := Aag ?a\<rparr>)"
    using finish_sounds_averages [of ?a ?s1 "replicate 58 0" example_deps 0] m
    by (simp add: SLAC_GROUPS_def)
  have "sounds_iteration example_deps ?w 0 (Some 71) (replicate 58 0) ?i1 ?s
          = Exit (Finished 0) sounded_log sounded_session"
    by (simp add: sounds_iteration_def rcv_frame_def Let_def replay_simps matching_run_def
          frame_simps process_sound_frame_def mm_type_distinct matching_session_simps
          example_deps_simps g fin [simplified] sounded_log_def sounded_session_def)
  then show ?thesis
    by (simp add: cm_sounds_loop_def replay_simps example_deps_simps SLAC_GROUPS_def
          sounds_while_Exit)
qed

theorem run_id_mismatch_in_rsp_still_matches_witness:
  "cm_atten_char example_deps (replay matching_run (\<lambda>k. 0)) sounded_log sounded_session
     = (None,
        \<lparr>reads = reads sounded_log @ [(Some 70, Inr (rsp_frame other_run_id 0))],
         sent = [\<lparr>ethernet_header = (ev_mac, host_mac),
                  homeplug_header = CM_ATTEN_CHAR OR MMTYPE_IND,
                  message = AtennChar ev_mac ev_run_id 1 (Some 2)
                              (Aag (10 # 20 # replicate 56 0))\<rparr>]\<rparr>,
        sounded_session\<lparr>state := STATE_UNMATCHED\<rparr>)
   \<and> atten_charac_routine example_deps (replay matching_run (\<lambda>k. 0)) no_io matching_session
     = Some (None,
             \<lparr>reads = reads sounded_log @ [(Some 70, Inr (rsp_frame other_run_id 0)),
                                           (Some 85, Inr (match_frame ev_run_id))],
              sent = [\<lparr>ethernet_header = (ev_mac, host_mac),
                       homeplug_header = CM_ATTEN_CHAR OR MMTYPE_IND,
                       message = AtennChar ev_mac ev_run_id 1 (Some 2)
                                   (Aag (10 # 20 # replicate 56 0))\<rparr>,
                      \<lparr>ethernet_header = (ev_mac, host_mac),
                       homeplug_header = CM_SLAC_MATCH OR MMTYPE_CNF,
                       message = MatchCnf ev_mac host_mac ev_run_id (replicate 7 0x22)
                                   (replicate 16 0x11)\<rparr>]\<rparr>,
             sounded_session\<lparr>state := STATE_MATCHED, pev_id := Some 0, pev_mac := ev_mac\<rparr>)"
proof -
  let ?w = "replay matching_run (\<lambda>k. 0)"
  have returned: "Finished 0 = ReadFailed \<or> Finished 0 = Finished 0"
    by simp
  have send_ind: "sendeth ?w (length (sent sounded_log)) = None"
    and send_cnf: "sendeth ?w (Suc (length (sent sounded_log))) = None"
    by (simp_all add: replay_simps)
  have rsp: "readeth ?w (length (reads sounded_log)) (Some (CM_ATTEN_CHAR_RSP example_deps))
               = Inr (rsp_frame other_run_id 0)"
    and req: "readeth ?w (Suc (length (reads sounded_log)))
                (Some (CM_SLAC_MATCH_REQ example_deps)) = Inr (match_frame ev_run_id)"
    by (simp_all add: replay_simps matching_run_def sounded_log_def)
  have rsp_decoded:
    "EthernetHeader_from_bytes (rsp_frame other_run_id 0)
       = Inr \<lparr>dst_mac = host_mac, src_mac = ev_mac, ether_type = ETH_TYPE_HPAV\<rparr>"
    "HomePlugHeader_from_bytes (rsp_frame other_run_id 0)
       = Inr \<lparr>mmv = HOMEPLUG_MMV, mm_type = CM_ATTEN_CHAR OR 3\<rparr>"
    "AtennCharRsp_from_bytes (rsp_frame other_run_id 0)
       = Inr \<lparr>acr_run_id = other_run_id, acr_result = 0\<rparr>"
    by (simp_all add: frame_simps)
  have req_decoded:
    "EthernetHeader_from_bytes (match_frame ev_run_id)
       = Inr \<lparr>dst_mac = host_mac, src_mac = ev_mac, ether_type = ETH_TYPE_HPAV\<rparr>"
    "HomePlugHeader_from_bytes (match_frame ev_run_id)
       = Inr \<lparr>mmv = HOMEPLUG_MMV, mm_type = CM_SLAC_MATCH OR MMTYPE_REQ\<rparr>"
    "MatchReq_from_bytes (match_frame ev_run_id)
       = Inr \<lparr>mr_pev_id = 0, mr_pev_mac = ev_mac, mr_run_id = ev_run_id\<rparr>"
    by (simp_all add: frame_simps)
  have other_run: "acr_run_id \<lparr>acr_run_id = other_run_id, acr_result = 0\<rparr>
                     \<noteq> run_id sounded_session"
    by (simp add: sounded_session_def matching_session_simps ev_run_id_def other_run_id_def)
  have result_0: "acr_result \<lparr>acr_run_id = other_run_id, acr_result = 0\<rparr> = 0"
    by simp
  have req_valid:
    "ether_type \<lparr>dst_mac = host_mac, src_mac = ev_mac, ether_type = ETH_TYPE_HPAV\<rparr>
       = ETH_TYPE_HPAV"
    "mmv \<lparr>mmv = HOMEPLUG_MMV, mm_type = CM_SLAC_MATCH OR MMTYPE_REQ\<rparr> = HOMEPLUG_MMV"
    "mm_type \<lparr>mmv = HOMEPLUG_MMV, mm_type = CM_SLAC_MATCH OR MMTYPE_REQ\<rparr>
       = CM_SLAC_MATCH OR MMTYPE_REQ"
    "mr_run_id \<lparr>mr_pev_id = 0, mr_pev_mac = ev_mac, mr_run_id = ev_run_id\<rparr>
       = run_id sounded_session"
    by (simp_all add: sounded_session_def matching_session_simps)
  show ?thesis
    using run_id_mismatch_in_rsp_still_matches
      [OF matching_run_start matching_run_sounds returned send_ind rsp rsp_decoded
        other_run result_0 req req_decoded req_valid send_cnf]
    by (simp add: example_deps_simps sounded_session_def matching_session_simps
          sounded_log_def)
qed

end
